theory Spec2Isabelle
  imports Complex_Main
begin

section \<open>Numbers and values\<close>

text \<open>
  A JavaScript number is modelled as an exact rational or \<open>NaN\<close>: arithmetic is exact
  (no binary rounding, no infinities), and \<open>NaN\<close> is kept because the guards of the
  service (\<open>amount <= 0\<close>, \<open>!value\<close>) treat it differently from every other number.
  \<open>JSOther\<close> stands for any run-time value whose \<open>typeof\<close> is not \<open>'number'\<close>.
\<close>

datatype jsnum = Num rat | NaN

datatype jsvalue = JSNumber jsnum | JSOther

text \<open>\<open>n <= 0\<close> on a number: a comparison with \<open>NaN\<close> is false.\<close>

fun js_le_zero :: "jsnum \<Rightarrow> bool" where
  "js_le_zero (Num a) = (a \<le> 0)"
| "js_le_zero NaN = False"

text \<open>\<open>n * v\<close> and \<open>n / v\<close> for a rate \<open>v\<close>. A zero divisor gives an infinity or
  \<open>NaN\<close> in JavaScript; the model has no infinity and returns \<open>NaN\<close> there.\<close>

fun js_mul :: "jsnum \<Rightarrow> rat \<Rightarrow> jsnum" where
  "js_mul (Num a) v = Num (a * v)"
| "js_mul NaN v = NaN"

fun js_div :: "jsnum \<Rightarrow> rat \<Rightarrow> jsnum" where
  "js_div (Num a) v = (if v = 0 then NaN else Num (a / v))"
| "js_div NaN v = NaN"

text \<open>Truthiness of an optional number (\<open>undefined\<close>, \<open>null\<close> and \<open>0\<close> are falsy).\<close>

fun truthy :: "rat option \<Rightarrow> bool" where
  "truthy None = False"
| "truthy (Some x) = (x \<noteq> 0)"

text \<open>\<open>a || b\<close> and \<open>a ?? b\<close> on optional numbers, and \<open>a || d\<close> with a number \<open>d\<close>.\<close>

definition js_or :: "rat option \<Rightarrow> rat option \<Rightarrow> rat option" where
  "js_or a b = (if truthy a then a else b)"

definition js_nullish :: "rat option \<Rightarrow> rat option \<Rightarrow> rat option" where
  "js_nullish a b = (case a of None \<Rightarrow> b | Some x \<Rightarrow> Some x)"

definition js_or_default :: "rat option \<Rightarrow> rat \<Rightarrow> rat" where
  "js_or_default a d = (case a of None \<Rightarrow> d | Some x \<Rightarrow> if x \<noteq> 0 then x else d)"

text \<open>
  \<open>Number(x.toFixed(4))\<close>: \<open>toFixed\<close> takes the sign off, picks the integer \<open>n\<close> with
  \<open>n / 10^4\<close> closest to the value, the larger one on a tie, and puts the sign back.
  (From \<open>10^21\<close> on \<open>toFixed\<close> prints the number itself; every double that large is an
  integer, so the rounding below leaves it as it is.)
\<close>

definition round4 :: "rat \<Rightarrow> rat" where
  "round4 x = of_int \<lfloor>x * 10000 + 1 / 2\<rfloor> / 10000"

definition toFixed4 :: "rat \<Rightarrow> rat" where
  "toFixed4 x = (if x < 0 then - round4 (- x) else round4 x)"

fun numberToFixed4 :: "jsnum \<Rightarrow> jsnum" where
  "numberToFixed4 (Num x) = Num (toFixed4 x)"
| "numberToFixed4 NaN = NaN"

text \<open>\<open>toUpperCase\<close> on ASCII strings.\<close>

definition upperChar :: "char \<Rightarrow> char" where
  "upperChar c =
     (if 97 \<le> (of_char c :: nat) \<and> (of_char c :: nat) \<le> 122
      then char_of ((of_char c :: nat) - 32) else c)"

definition toUpperCase :: "string \<Rightarrow> string" where
  "toUpperCase s = map upperChar s"

section \<open>Data model\<close>

record MonobankRate =
  currencyCodeA :: int
  currencyCodeB :: int
  date :: int
  rateBuy :: "rat option"
  rateSell :: "rat option"
  rateCross :: "rat option"

record ConvertResponseDto =
  dtoFrom :: string
  dtoTo :: string
  dtoAmount :: jsnum
  dtoResult :: jsnum

text \<open>Modelled from the spec: \<open>constants/currency-codes.ts\<close> is not among the sources;
  the base currency is UAH, whose numeric code the service tests give as 980.\<close>

definition UAH_CODE :: int where
  "UAH_CODE = 980"

definition BAD_REQUEST :: int where
  "BAD_REQUEST = 400"

definition NOT_FOUND :: int where
  "NOT_FOUND = 404"

definition SERVICE_UNAVAILABLE :: int where
  "SERVICE_UNAVAILABLE = 503"

text \<open>
  An \<open>HttpException\<close> carries a message and a status. The messages are the templates of
  the source, with the values they interpolate:
  \<^item> \<open>InvalidAmount\<close>: ``Invalid amount: ... Amount must be a positive number.''
  \<^item> \<open>UnsupportedCurrency\<close>: ``Unsupported currency: ...''
  \<^item> \<open>RateNotFound\<close>: ``Exchange rate not found for ... to ...''
  \<^item> \<open>IncompleteRateData\<close>: ``Incomplete exchange rate data.''
  \<^item> \<open>CircuitIsOpen\<close>: ``Service temporarily unavailable. Please try again later.''
  \<^item> \<open>MonobankApiError\<close>: ``Monobank API error: ...'' (the status text)
  \<^item> \<open>FailedAfterAttempts\<close>: ``Failed to fetch exchange rates after multiple attempts''
  \<^item> \<open>FailedToFetch\<close>: ``Failed to fetch exchange rates''
\<close>

datatype message =
    InvalidAmount jsvalue
  | UnsupportedCurrency string
  | RateNotFound string string
  | IncompleteRateData
  | CircuitIsOpen
  | MonobankApiError string
  | FailedAfterAttempts
  | FailedToFetch

datatype error = HttpException message int

section \<open>Rate resolver and conversion engine (AppService)\<close>

text \<open>The expression that \<open>findRate\<close> computes for \<open>crossRate\<close>:
  \<open>(f.rateBuy || f.rateCross || 1) / (t.rateSell || t.rateCross || 1)\<close>.\<close>

definition crossRateOf :: "MonobankRate \<Rightarrow> MonobankRate \<Rightarrow> rat" where
  "crossRateOf fromToUah toToUah =
     js_or_default (js_or (rateBuy fromToUah) (rateCross fromToUah)) 1 /
     js_or_default (js_or (rateSell toToUah) (rateCross toToUah)) 1"

text \<open>The predicate of the three \<open>rates.find\<close> calls: the record quotes \<open>code\<close>
  against the base currency.\<close>

definition baseLeg :: "int \<Rightarrow> MonobankRate \<Rightarrow> bool" where
  "baseLeg code r = (currencyCodeA r = code \<and> currencyCodeB r = UAH_CODE)"

definition findRate :: "MonobankRate list \<Rightarrow> int \<Rightarrow> int \<Rightarrow> MonobankRate option" where
  "findRate rates fromCode toCode =
     (if fromCode = UAH_CODE \<or> toCode = UAH_CODE then
        (let foreignCode = (if fromCode = UAH_CODE then toCode else fromCode)
         in find (baseLeg foreignCode) rates)
      else
        (let fromToUah = find (baseLeg fromCode) rates;
             toToUah = find (baseLeg toCode) rates
         in case fromToUah of
              None \<Rightarrow> None
            | Some f \<Rightarrow>
                (case toToUah of
                   None \<Rightarrow> None
                 | Some t \<Rightarrow>
                     Some \<lparr>currencyCodeA = fromCode, currencyCodeB = toCode,
                           date = max (date f) (date t),
                           rateBuy = None, rateSell = None,
                           rateCross = Some (crossRateOf f t)\<rparr>)))"

datatype rate_type = Buy | Sell | Cross

definition getRequiredRate :: "MonobankRate \<Rightarrow> rate_type \<Rightarrow> error + rat" where
  "getRequiredRate rate type =
     (let v = (case type of
                 Buy \<Rightarrow> js_nullish (rateBuy rate) (rateCross rate)
               | Sell \<Rightarrow> js_nullish (rateSell rate) (rateCross rate)
               | Cross \<Rightarrow> rateCross rate)
      in case v of
           None \<Rightarrow> Inl (HttpException IncompleteRateData SERVICE_UNAVAILABLE)
         | Some x \<Rightarrow>
             if x = 0 then Inl (HttpException IncompleteRateData SERVICE_UNAVAILABLE)
             else Inr x)"

definition calculateConversion :: "jsnum \<Rightarrow> MonobankRate \<Rightarrow> int \<Rightarrow> int \<Rightarrow> error + jsnum" where
  "calculateConversion amt rate fromCode toCode =
     (if toCode = UAH_CODE then
        (case getRequiredRate rate Buy of
           Inl e \<Rightarrow> Inl e
         | Inr v \<Rightarrow> Inr (js_mul amt v))
      else if fromCode = UAH_CODE then
        (case getRequiredRate rate Sell of
           Inl e \<Rightarrow> Inl e
         | Inr v \<Rightarrow> Inr (js_div amt v))
      else
        (case getRequiredRate rate Cross of
           Inl e \<Rightarrow> Inl e
         | Inr v \<Rightarrow> Inr (js_mul amt v)))"

section \<open>Upstream fetch: retrier and circuit breaker (CurrencyApiService)\<close>

text \<open>
  One call of the transport either answers with the parsed rate list or fails with an
  \<open>AxiosError\<close>, whose response (status and status text) is absent on a network error
  or a timeout.
\<close>

datatype outcome = Response "MonobankRate list" | AxiosError "(int \<times> string) option"

text \<open>
  The read-only part of the service: the currency table (a parameter, its file is not
  among the sources), the breaker's configuration, and the transport, given as the
  outcome of its k-th call.
\<close>

record env =
  CURRENCY_CODES :: "string \<rightharpoonup> int"
  failureThreshold :: int
  circuitTimeout :: int
  httpGet :: "nat \<Rightarrow> outcome"

text \<open>
  The mutable part: the breaker's fields, the two cache namespaces (the store's expiry
  is the store's business and is not modelled), the clock read by \<open>Date.now()\<close>, and
  what a test observes of the collaborators: how many transport calls were made and
  which delays were slept. A sleep moves the clock forward by its delay; between two
  calls of the service the clock is whatever the state says.
\<close>

record state =
  failureCount :: int
  lastFailureTime :: "int option"
  circuitOpen :: bool
  ratesCache :: "MonobankRate list option"
  conversionCache :: "string \<times> string \<times> jsnum \<rightharpoonup> ConvertResponseDto"
  now :: int
  httpCalls :: nat
  sleeps :: "int list"

definition sleep :: "int \<Rightarrow> state \<Rightarrow> state" where
  "sleep ms s = s\<lparr>now := now s + ms, sleeps := sleeps s @ [ms]\<rparr>"

text \<open>The response of a failed call when its status is truthy and in 400..499.\<close>

fun clientError :: "(int \<times> string) option \<Rightarrow> (int \<times> string) option" where
  "clientError None = None"
| "clientError (Some (st, txt)) =
     (if st \<noteq> 0 \<and> 400 \<le> st \<and> st < 500 then Some (st, txt) else None)"

text \<open>The \<open>for\<close> loop of \<open>fetchWithRetry\<close>, from attempt \<open>attempt\<close> on.\<close>

function fetchAttempts :: "env \<Rightarrow> nat \<Rightarrow> int \<Rightarrow> nat \<Rightarrow> state \<Rightarrow> (error + MonobankRate list) \<times> state" where
  "fetchAttempts e retries delay attempt s =
     (if attempt \<le> retries then
        (case httpGet e (httpCalls s) of
           Response d \<Rightarrow> (Inr d, s\<lparr>httpCalls := httpCalls s + 1\<rparr>)
         | AxiosError resp \<Rightarrow>
             (case clientError resp of
                Some (st, txt) \<Rightarrow>
                  (Inl (HttpException (MonobankApiError txt) st), s\<lparr>httpCalls := httpCalls s + 1\<rparr>)
              | None \<Rightarrow>
                  if attempt = retries then
                    (Inl (HttpException FailedAfterAttempts SERVICE_UNAVAILABLE),
                     s\<lparr>httpCalls := httpCalls s + 1\<rparr>)
                  else
                    fetchAttempts e retries delay (attempt + 1)
                      (sleep (delay * 2 ^ (attempt - 1)) (s\<lparr>httpCalls := httpCalls s + 1\<rparr>))))
      else (Inl (HttpException FailedToFetch SERVICE_UNAVAILABLE), s))"
  by pat_completeness auto
termination
  by (relation "measure (\<lambda>(e, retries, delay, attempt, s). retries + 1 - attempt)") auto

definition fetchWithRetry :: "env \<Rightarrow> nat \<Rightarrow> int \<Rightarrow> state \<Rightarrow> (error + MonobankRate list) \<times> state" where
  "fetchWithRetry e retries delay s = fetchAttempts e retries delay 1 s"

definition handleCircuitBreakerFailure :: "env \<Rightarrow> state \<Rightarrow> state" where
  "handleCircuitBreakerFailure e s =
     (let s1 = s\<lparr>failureCount := failureCount s + 1, lastFailureTime := Some (now s)\<rparr>
      in if failureCount s1 \<ge> failureThreshold e then s1\<lparr>circuitOpen := True\<rparr> else s1)"

definition timeSinceLastFailure :: "state \<Rightarrow> int" where
  "timeSinceLastFailure s = now s - (case lastFailureTime s of None \<Rightarrow> 0 | Some t \<Rightarrow> t)"

definition fetchWithCircuitBreaker :: "env \<Rightarrow> state \<Rightarrow> (error + MonobankRate list) \<times> state" where
  "fetchWithCircuitBreaker e s =
     (if circuitOpen s \<and> timeSinceLastFailure s < circuitTimeout e then
        (Inl (HttpException CircuitIsOpen SERVICE_UNAVAILABLE), s)
      else
        (case fetchWithRetry e 3 1000 s of
           (Inr rates, s1) \<Rightarrow>
             (Inr rates, s1\<lparr>failureCount := 0, circuitOpen := False, lastFailureTime := None\<rparr>)
         | (Inl err, s1) \<Rightarrow> (Inl err, handleCircuitBreakerFailure e s1)))"

definition getExchangeRates :: "env \<Rightarrow> state \<Rightarrow> (error + MonobankRate list) \<times> state" where
  "getExchangeRates e s =
     (case ratesCache s of
        Some cachedRates \<Rightarrow> (Inr cachedRates, s)
      | None \<Rightarrow>
          (case fetchWithCircuitBreaker e s of
             (Inl err, s1) \<Rightarrow> (Inl err, s1)
           | (Inr rates, s1) \<Rightarrow> (Inr rates, s1\<lparr>ratesCache := Some rates\<rparr>)))"

definition getCurrencyCode :: "env \<Rightarrow> string \<Rightarrow> int option" where
  "getCurrencyCode e currency = CURRENCY_CODES e (toUpperCase currency)"

section \<open>Orchestrator (AppService.convert)\<close>

text \<open>The cache key \<open>conversion:FROM:TO:amount\<close>, kept as the triple it is built from.\<close>

definition getConversionCacheKey :: "string \<Rightarrow> string \<Rightarrow> jsnum \<Rightarrow> string \<times> string \<times> jsnum" where
  "getConversionCacheKey fromSym toSym amt = (toUpperCase fromSym, toUpperCase toSym, amt)"

text \<open>A currency code that passes the \<open>!code\<close> guard: present and not 0.\<close>

fun truthyCode :: "int option \<Rightarrow> int option" where
  "truthyCode None = None"
| "truthyCode (Some c) = (if c = 0 then None else Some c)"

definition convert :: "env \<Rightarrow> string \<Rightarrow> string \<Rightarrow> jsvalue \<Rightarrow> state \<Rightarrow> (error + ConvertResponseDto) \<times> state" where
  "convert e fromSym toSym amount s =
     (case amount of
        JSOther \<Rightarrow> (Inl (HttpException (InvalidAmount amount) BAD_REQUEST), s)
      | JSNumber amt \<Rightarrow>
          if js_le_zero amt then (Inl (HttpException (InvalidAmount amount) BAD_REQUEST), s)
          else
            (case truthyCode (getCurrencyCode e fromSym) of
               None \<Rightarrow> (Inl (HttpException (UnsupportedCurrency fromSym) BAD_REQUEST), s)
             | Some fromCode \<Rightarrow>
            (case truthyCode (getCurrencyCode e toSym) of
               None \<Rightarrow> (Inl (HttpException (UnsupportedCurrency toSym) BAD_REQUEST), s)
             | Some toCode \<Rightarrow>
            (case conversionCache s (getConversionCacheKey fromSym toSym amt) of
               Some cachedResult \<Rightarrow> (Inr cachedResult, s)
             | None \<Rightarrow>
            (case getExchangeRates e s of
               (Inl err, s1) \<Rightarrow> (Inl err, s1)
             | (Inr rates, s1) \<Rightarrow>
            (case findRate rates fromCode toCode of
               None \<Rightarrow> (Inl (HttpException (RateNotFound fromSym toSym) NOT_FOUND), s1)
             | Some rate \<Rightarrow>
            (case calculateConversion amt rate fromCode toCode of
               Inl err \<Rightarrow> (Inl err, s1)
             | Inr res \<Rightarrow>
                 (let response = \<lparr>dtoFrom = toUpperCase fromSym, dtoTo = toUpperCase toSym,
                                   dtoAmount = amt, dtoResult = numberToFixed4 res\<rparr>
                  in (Inr response,
                      s1\<lparr>conversionCache :=
                           (conversionCache s1)
                             (getConversionCacheKey fromSym toSym amt \<mapsto> response)\<rparr>)))))))))"

section \<open>The specification's formulas\<close>

text \<open>The value that \<open>requiredRate(rate, kind)\<close> selects, in the specification's words:
  the buy (sell) rate if present, else the cross rate; for \<open>cross\<close> the cross rate only.\<close>

definition selectedRate :: "MonobankRate \<Rightarrow> rate_type \<Rightarrow> rat option" where
  "selectedRate rate type =
     (case type of
        Buy \<Rightarrow> (case rateBuy rate of Some b \<Rightarrow> Some b | None \<Rightarrow> rateCross rate)
      | Sell \<Rightarrow> (case rateSell rate of Some b \<Rightarrow> Some b | None \<Rightarrow> rateCross rate)
      | Cross \<Rightarrow> rateCross rate)"

text \<open>The cross rate in the specification's words:
  \<open>(src.buyRate ?? src.crossRate ?? 1) / (tgt.sellRate ?? tgt.crossRate ?? 1)\<close>.\<close>

definition spec_crossRate :: "MonobankRate \<Rightarrow> MonobankRate \<Rightarrow> rat" where
  "spec_crossRate src tgt =
     (case rateBuy src of Some b \<Rightarrow> b | None \<Rightarrow> (case rateCross src of Some c \<Rightarrow> c | None \<Rightarrow> 1)) /
     (case rateSell tgt of Some b \<Rightarrow> b | None \<Rightarrow> (case rateCross tgt of Some c \<Rightarrow> c | None \<Rightarrow> 1))"

text \<open>No rate field of the record is 0.\<close>

definition noZeroRate :: "MonobankRate \<Rightarrow> bool" where
  "noZeroRate r = (rateBuy r \<noteq> Some 0 \<and> rateSell r \<noteq> Some 0 \<and> rateCross r \<noteq> Some 0)"



section \<open>Fixtures of the service tests\<close>

definition usdLeg :: MonobankRate where
  "usdLeg = \<lparr>currencyCodeA = 840, currencyCodeB = 980, date = 1704326400,
             rateBuy = Some (75 / 2), rateSell = Some 38, rateCross = None\<rparr>"

definition eurLeg :: MonobankRate where
  "eurLeg = \<lparr>currencyCodeA = 978, currencyCodeB = 980, date = 1704326400,
             rateBuy = Some 41, rateSell = Some (83 / 2), rateCross = None\<rparr>"

definition chfLeg :: MonobankRate where
  "chfLeg = \<lparr>currencyCodeA = 756, currencyCodeB = 980, date = 1704326400,
             rateBuy = None, rateSell = None, rateCross = Some 43\<rparr>"

definition mockRates :: "MonobankRate list" where
  "mockRates = [usdLeg, eurLeg, chfLeg]"

text \<open>A record that quotes USD against the base currency and carries no rate at all.\<close>

definition ratelessLeg :: MonobankRate where
  "ratelessLeg = \<lparr>currencyCodeA = 840, currencyCodeB = 980, date = 1704326400,
                  rateBuy = None, rateSell = None, rateCross = None\<rparr>"


text \<open>Records whose buy rate is 0.\<close>

definition zeroBuyLeg :: MonobankRate where
  "zeroBuyLeg = \<lparr>currencyCodeA = 840, currencyCodeB = 980, date = 1704326400,
                 rateBuy = Some 0, rateSell = Some 2, rateCross = Some 5\<rparr>"

text \<open>The currency table, the breaker's configuration and a transport that always answers
  with the mock snapshot; and the state of a service that has just started.\<close>

definition mockCodes :: "string \<rightharpoonup> int" where
  "mockCodes = [''USD'' \<mapsto> 840, ''EUR'' \<mapsto> 978, ''UAH'' \<mapsto> 980, ''GBP'' \<mapsto> 826, ''CHF'' \<mapsto> 756]"

definition mockEnv :: env where
  "mockEnv = \<lparr>CURRENCY_CODES = mockCodes, failureThreshold = 3, circuitTimeout = 1000,
              httpGet = (\<lambda>k. Response mockRates)\<rparr>"

definition startState :: state where
  "startState = \<lparr>failureCount = 0, lastFailureTime = None, circuitOpen = False,
                 ratesCache = None, conversionCache = Map.empty,
                 now = 1704326400000, httpCalls = 0, sleeps = []\<rparr>"

text \<open>Transports that fail: always with a network error; twice with a network error
  before answering; always with the status 400.\<close>

definition downEnv :: env where
  "downEnv = mockEnv\<lparr>httpGet := (\<lambda>k. AxiosError None)\<rparr>"



text \<open>A breaker that opened at its third failure, at time \<open>t\<close>.\<close>

definition openState :: "int \<Rightarrow> state" where
  "openState t = startState\<lparr>failureCount := 3, lastFailureTime := Some t, circuitOpen := True\<rparr>"

section \<open>Notions used by the statements about the upstream fetch\<close>


text \<open>The state after \<open>n\<close> failed transport calls, each followed by its backoff sleep,
  the first of them being attempt number \<open>attempt\<close>.\<close>

definition afterAttempts :: "int \<Rightarrow> nat \<Rightarrow> nat \<Rightarrow> state \<Rightarrow> state" where
  "afterAttempts delay attempt n s =
     s\<lparr>httpCalls := httpCalls s + n,
       now := now s + (\<Sum>j<n. delay * 2 ^ (attempt - 1 + j)),
       sleeps := sleeps s @ map (\<lambda>j. delay * 2 ^ (attempt - 1 + j)) [0..<n]\<rparr>"

text \<open>An open circuit has reached the threshold.\<close>

definition breakerInv :: "env \<Rightarrow> state \<Rightarrow> bool" where
  "breakerInv e s = (circuitOpen s \<longrightarrow> failureThreshold e \<le> failureCount s)"

section \<open>Rounding\<close>




section \<open>The required rate\<close>

lemma getRequiredRate_selected:
  "getRequiredRate rate ty =
     (case selectedRate rate ty of
        None \<Rightarrow> Inl (HttpException IncompleteRateData SERVICE_UNAVAILABLE)
      | Some x \<Rightarrow> if x = 0 then Inl (HttpException IncompleteRateData SERVICE_UNAVAILABLE) else Inr x)"
  by (simp add: getRequiredRate_def selectedRate_def js_nullish_def Let_def
      split: rate_type.splits option.splits)


lemma getRequiredRate_error:
  "getRequiredRate rate ty = Inl err \<Longrightarrow> err = HttpException IncompleteRateData SERVICE_UNAVAILABLE"
  by (auto simp: getRequiredRate_selected split: option.splits if_splits)

text \<open>
  C5 (as the code has it). \<open>getRequiredRate\<close> selects, for \<open>buy\<close>, the buy rate if present
  else the cross rate; for \<open>sell\<close>, the sell rate if present else the cross rate; for
  \<open>cross\<close>, the cross rate only. It fails with the incomplete-rate-data error (status 503)
  exactly when the selected value is absent or zero, and returns every other selected
  value, a negative one included. That error differs from the rate-not-found error
  (status 404).
\<close>

theorem getRequiredRate_selects:
  "(selectedRate rate ty = None \<or> selectedRate rate ty = Some 0 \<longrightarrow>
      getRequiredRate rate ty = Inl (HttpException IncompleteRateData SERVICE_UNAVAILABLE))
   \<and> (\<forall>x. selectedRate rate ty = Some x \<and> x \<noteq> 0 \<longrightarrow> getRequiredRate rate ty = Inr x)
   \<and> HttpException IncompleteRateData SERVICE_UNAVAILABLE \<noteq> HttpException (RateNotFound a b) NOT_FOUND"
  by (auto simp: getRequiredRate_selected)

theorem getRequiredRate_selects_witness:
  "getRequiredRate ratelessLeg Buy = Inl (HttpException IncompleteRateData SERVICE_UNAVAILABLE)
   \<and> getRequiredRate usdLeg Buy = Inr (75 / 2)
   \<and> getRequiredRate usdLeg Sell = Inr 38
   \<and> getRequiredRate chfLeg Buy = Inr 43
   \<and> getRequiredRate chfLeg Cross = Inr 43"
proof -
  have "selectedRate ratelessLeg Buy = None"
    by (simp add: selectedRate_def ratelessLeg_def)
  moreover have "selectedRate usdLeg Buy = Some (75 / 2) \<and> (75 / 2 :: rat) \<noteq> 0"
    and "selectedRate usdLeg Sell = Some 38 \<and> (38 :: rat) \<noteq> 0"
    by (simp_all add: selectedRate_def usdLeg_def)
  moreover have "selectedRate chfLeg Buy = Some 43 \<and> (43 :: rat) \<noteq> 0"
    and "selectedRate chfLeg Cross = Some 43 \<and> (43 :: rat) \<noteq> 0"
    by (simp_all add: selectedRate_def chfLeg_def)
  ultimately show ?thesis
    using getRequiredRate_selects [of ratelessLeg Buy]
      getRequiredRate_selects [of usdLeg Buy] getRequiredRate_selects [of usdLeg Sell]
      getRequiredRate_selects [of chfLeg Buy] getRequiredRate_selects [of chfLeg Cross]
    by blast
qed

text \<open>The sentence of the specification, as written, fails on a negative rate: the selected value is non-positive
  and the code returns it.\<close>

theorem getRequiredRate_negative_counterexample:
  "selectedRate \<lparr>currencyCodeA = 840, currencyCodeB = 980, date = 1704326400,
                 rateBuy = Some (- 1), rateSell = None, rateCross = None\<rparr> Buy = Some (- 1)
   \<and> (- 1 :: rat) \<le> 0
   \<and> getRequiredRate \<lparr>currencyCodeA = 840, currencyCodeB = 980, date = 1704326400,
                       rateBuy = Some (- 1), rateSell = None, rateCross = None\<rparr> Buy = Inr (- 1)"
  by (simp add: selectedRate_def getRequiredRate_def js_nullish_def)

section \<open>The rate resolver\<close>



lemma js_or_default_nonzero: "js_or_default a 1 \<noteq> 0"
  by (simp add: js_or_default_def split: option.splits)

lemma crossRateOf_nonzero: "crossRateOf f t \<noteq> 0"
  by (simp add: crossRateOf_def js_or_default_nonzero)


lemma findRate_cross:
  "fromCode \<noteq> UAH_CODE \<Longrightarrow> toCode \<noteq> UAH_CODE \<Longrightarrow>
   findRate rates fromCode toCode =
     (case find (baseLeg fromCode) rates of
        None \<Rightarrow> None
      | Some f \<Rightarrow>
          (case find (baseLeg toCode) rates of
             None \<Rightarrow> None
           | Some t \<Rightarrow>
               Some \<lparr>currencyCodeA = fromCode, currencyCodeB = toCode,
                     date = max (date f) (date t),
                     rateBuy = None, rateSell = None,
                     rateCross = Some (crossRateOf f t)\<rparr>))"
  by (simp add: findRate_def)

lemma crossRateOf_spec:
  "noZeroRate f \<Longrightarrow> noZeroRate t \<Longrightarrow> crossRateOf f t = spec_crossRate f t"
  by (auto simp: crossRateOf_def spec_crossRate_def noZeroRate_def js_or_def js_or_default_def
      split: option.splits)

lemma calculateConversion_cross:
  "fromCode \<noteq> UAH_CODE \<Longrightarrow> toCode \<noteq> UAH_CODE \<Longrightarrow> rateCross r = Some x \<Longrightarrow> x \<noteq> 0 \<Longrightarrow>
   calculateConversion amt r fromCode toCode = Inr (js_mul amt x)"
  by (simp add: calculateConversion_def getRequiredRate_def)


lemma find_usd_mock: "find (baseLeg 840) mockRates = Some usdLeg"
  by (simp add: baseLeg_def mockRates_def usdLeg_def UAH_CODE_def)

lemma find_eur_mock: "find (baseLeg 978) mockRates = Some eurLeg"
  by (simp add: baseLeg_def mockRates_def usdLeg_def eurLeg_def UAH_CODE_def)


lemma find_gbp_mock: "find (baseLeg 826) mockRates = None"
  by (simp add: baseLeg_def mockRates_def usdLeg_def eurLeg_def chfLeg_def UAH_CODE_def)






text \<open>
  C2 (as the code has it). For two foreign currencies whose base-currency legs \<open>f\<close> and
  \<open>t\<close> both exist, the resolver returns a record with \<open>currencyCodeA\<close> the source code,
  \<open>currencyCodeB\<close> the target code, the later of the two dates, no buy and no sell rate,
  and \<open>rateCross = n / d\<close>, where \<open>n\<close> is the first of \<open>f\<close>'s buy rate and cross rate
  that is present and not zero, else 1, and \<open>d\<close> is the first of \<open>t\<close>'s sell rate and
  cross rate that is present and not zero, else 1. When no rate field of the two legs
  is 0 this is the specification's formula. With buy rates 37.5 and sell rate 41.5 the
  conversion multiplies the amount by 37.5 / 41.5.
\<close>

theorem findRate_cross_synthesis:
  assumes "fromCode \<noteq> UAH_CODE" and "toCode \<noteq> UAH_CODE"
    and "find (baseLeg fromCode) rates = Some f"
    and "find (baseLeg toCode) rates = Some t"
  shows "findRate rates fromCode toCode =
           Some \<lparr>currencyCodeA = fromCode, currencyCodeB = toCode,
                 date = max (date f) (date t), rateBuy = None, rateSell = None,
                 rateCross = Some
                   ((case rateBuy f of
                       Some b \<Rightarrow> if b \<noteq> 0 then b
                                 else (case rateCross f of Some c \<Rightarrow> if c \<noteq> 0 then c else 1 | None \<Rightarrow> 1)
                     | None \<Rightarrow> (case rateCross f of Some c \<Rightarrow> if c \<noteq> 0 then c else 1 | None \<Rightarrow> 1)) /
                    (case rateSell t of
                       Some b \<Rightarrow> if b \<noteq> 0 then b
                                 else (case rateCross t of Some c \<Rightarrow> if c \<noteq> 0 then c else 1 | None \<Rightarrow> 1)
                     | None \<Rightarrow> (case rateCross t of Some c \<Rightarrow> if c \<noteq> 0 then c else 1 | None \<Rightarrow> 1)))\<rparr>
         \<and> (noZeroRate f \<and> noZeroRate t \<longrightarrow>
              findRate rates fromCode toCode =
                Some \<lparr>currencyCodeA = fromCode, currencyCodeB = toCode,
                      date = max (date f) (date t), rateBuy = None, rateSell = None,
                      rateCross = Some (spec_crossRate f t)\<rparr>)
         \<and> (rateBuy f = Some (75 / 2) \<and> rateSell t = Some (83 / 2) \<longrightarrow>
              (\<exists>r. findRate rates fromCode toCode = Some r \<and>
                   calculateConversion (Num a) r fromCode toCode =
                     Inr (Num (a * ((75 / 2) / (83 / 2))))))"
proof (intro conjI impI)
  have fr: "findRate rates fromCode toCode =
           Some \<lparr>currencyCodeA = fromCode, currencyCodeB = toCode,
                 date = max (date f) (date t), rateBuy = None, rateSell = None,
                 rateCross = Some (crossRateOf f t)\<rparr>"
    using assms by (simp add: findRate_cross)
  show "findRate rates fromCode toCode =
           Some \<lparr>currencyCodeA = fromCode, currencyCodeB = toCode,
                 date = max (date f) (date t), rateBuy = None, rateSell = None,
                 rateCross = Some
                   ((case rateBuy f of
                       Some b \<Rightarrow> if b \<noteq> 0 then b
                                 else (case rateCross f of Some c \<Rightarrow> if c \<noteq> 0 then c else 1 | None \<Rightarrow> 1)
                     | None \<Rightarrow> (case rateCross f of Some c \<Rightarrow> if c \<noteq> 0 then c else 1 | None \<Rightarrow> 1)) /
                    (case rateSell t of
                       Some b \<Rightarrow> if b \<noteq> 0 then b
                                 else (case rateCross t of Some c \<Rightarrow> if c \<noteq> 0 then c else 1 | None \<Rightarrow> 1)
                     | None \<Rightarrow> (case rateCross t of Some c \<Rightarrow> if c \<noteq> 0 then c else 1 | None \<Rightarrow> 1)))\<rparr>"
    unfolding fr
    by (simp add: crossRateOf_def js_or_def js_or_default_def split: option.splits)
  {
    assume "noZeroRate f \<and> noZeroRate t"
    then show "findRate rates fromCode toCode =
                Some \<lparr>currencyCodeA = fromCode, currencyCodeB = toCode,
                      date = max (date f) (date t), rateBuy = None, rateSell = None,
                      rateCross = Some (spec_crossRate f t)\<rparr>"
      unfolding fr by (simp add: crossRateOf_spec)
  }
  {
    assume ex: "rateBuy f = Some (75 / 2) \<and> rateSell t = Some (83 / 2)"
    then have cr: "crossRateOf f t = (75 / 2) / (83 / 2)"
      by (simp add: crossRateOf_def js_or_def js_or_default_def)
    have "calculateConversion (Num a)
            \<lparr>currencyCodeA = fromCode, currencyCodeB = toCode,
                 date = max (date f) (date t), rateBuy = None, rateSell = None,
                 rateCross = Some (crossRateOf f t)\<rparr> fromCode toCode
          = Inr (js_mul (Num a) (crossRateOf f t))"
      using assms(1,2) by (intro calculateConversion_cross) (simp_all add: crossRateOf_nonzero)
    then show "\<exists>r. findRate rates fromCode toCode = Some r \<and>
                   calculateConversion (Num a) r fromCode toCode =
                     Inr (Num (a * ((75 / 2) / (83 / 2))))"
      unfolding fr cr by simp
  }
qed

theorem findRate_cross_synthesis_witness:
  "(\<exists>r. findRate mockRates 840 978 = Some r \<and>
        calculateConversion (Num 100) r 840 978 = Inr (Num (100 * ((75 / 2) / (83 / 2)))))
   \<and> findRate mockRates 840 978 =
        Some \<lparr>currencyCodeA = 840, currencyCodeB = 978, date = 1704326400,
              rateBuy = None, rateSell = None, rateCross = Some (75 / 83)\<rparr>"
proof -
  have h1: "(840::int) \<noteq> UAH_CODE" and h2: "(978::int) \<noteq> UAH_CODE"
    by (simp_all add: UAH_CODE_def)
  have h3: "rateBuy usdLeg = Some (75 / 2) \<and> rateSell eurLeg = Some (83 / 2)"
    by (simp add: usdLeg_def eurLeg_def)
  have h4: "noZeroRate usdLeg \<and> noZeroRate eurLeg"
    by (simp add: noZeroRate_def usdLeg_def eurLeg_def)
  have s: "spec_crossRate usdLeg eurLeg = 75 / 83" "date usdLeg = 1704326400" "date eurLeg = 1704326400"
    by (simp_all add: spec_crossRate_def usdLeg_def eurLeg_def)
  note t = findRate_cross_synthesis [OF h1 h2 find_usd_mock find_eur_mock, of 100]
  from t h3 have a: "\<exists>r. findRate mockRates 840 978 = Some r \<and>
        calculateConversion (Num 100) r 840 978 = Inr (Num (100 * ((75 / 2) / (83 / 2))))"
    by blast
  from t h4 have b: "findRate mockRates 840 978 =
        Some \<lparr>currencyCodeA = 840, currencyCodeB = 978, date = max (date usdLeg) (date eurLeg),
              rateBuy = None, rateSell = None, rateCross = Some (spec_crossRate usdLeg eurLeg)\<rparr>"
    by blast
  from a b show ?thesis unfolding s by simp
qed

text \<open>The sentence of the specification, as written, fails on a source leg whose buy rate is 0: the specification's
  formula gives the cross rate 0 / 2 = 0, the code skips the 0 and takes the leg's cross
  rate, 5 / 2.\<close>

theorem findRate_zero_buy_counterexample:
  "findRate [zeroBuyLeg, eurLeg] 840 978 =
     Some \<lparr>currencyCodeA = 840, currencyCodeB = 978, date = 1704326400,
           rateBuy = None, rateSell = None, rateCross = Some (10 / 83)\<rparr>
   \<and> spec_crossRate zeroBuyLeg eurLeg = 0"
  by (simp add: findRate_def baseLeg_def crossRateOf_def js_or_def js_or_default_def
      spec_crossRate_def zeroBuyLeg_def eurLeg_def UAH_CODE_def)

section \<open>The backoff retrier\<close>

declare fetchAttempts.simps [simp del]








lemma afterAttempts_call:
  "(afterAttempts delay attempt n s)\<lparr>httpCalls := httpCalls (afterAttempts delay attempt n s) + 1\<rparr>
     = (afterAttempts delay attempt n s)\<lparr>httpCalls := httpCalls s + (n + 1)\<rparr>"
  by (simp add: afterAttempts_def)




lemma fetchAttempts_frame:
  "fetchAttempts e retries delay attempt s = (res, s') \<Longrightarrow>
   failureCount s' = failureCount s \<and> lastFailureTime s' = lastFailureTime s \<and>
   circuitOpen s' = circuitOpen s \<and> ratesCache s' = ratesCache s \<and>
   conversionCache s' = conversionCache s \<and>
   (attempt \<le> retries \<longrightarrow> httpCalls s < httpCalls s') \<and>
   httpCalls s' \<le> httpCalls s + (retries + 1 - attempt)"
proof (induction e retries delay attempt s arbitrary: res s' rule: fetchAttempts.induct)
  case (1 e retries delay attempt s)
  show ?case
  proof (cases "attempt \<le> retries")
    case False
    with "1.prems" show ?thesis
      by (subst (asm) fetchAttempts.simps) auto
  next
    case True
    show ?thesis
    proof (cases "httpGet e (httpCalls s)")
      case (Response d)
      with True "1.prems" show ?thesis
        by (subst (asm) fetchAttempts.simps) auto
    next
      case (AxiosError resp)
      show ?thesis
      proof (cases "clientError resp")
        case (Some p)
        with True AxiosError "1.prems" show ?thesis
          by (subst (asm) fetchAttempts.simps) (auto split: prod.splits)
      next
        case None
        show ?thesis
        proof (cases "attempt = retries")
          case True
          with None AxiosError "1.prems" show ?thesis
            by (subst (asm) fetchAttempts.simps) auto
        next
          case False
          with True None AxiosError "1.prems"
          have rec: "fetchAttempts e retries delay (attempt + 1)
                  (sleep (delay * 2 ^ (attempt - 1)) (s\<lparr>httpCalls := httpCalls s + 1\<rparr>)) = (res, s')"
            by (subst (asm) fetchAttempts.simps) auto
          from "1.IH" [OF True AxiosError None False rec] True False
          show ?thesis by (auto simp: sleep_def)
        qed
      qed
    qed
  qed
qed

lemma fetchWithRetry_frame:
  "fetchWithRetry e 3 1000 s = (res, s') \<Longrightarrow>
   failureCount s' = failureCount s \<and> lastFailureTime s' = lastFailureTime s \<and>
   circuitOpen s' = circuitOpen s \<and> httpCalls s < httpCalls s' \<and> httpCalls s' \<le> httpCalls s + 3"
  using fetchAttempts_frame [of e 3 1000 1 s res s'] by (simp add: fetchWithRetry_def)


section \<open>The circuit breaker\<close>

lemma handleCircuitBreakerFailure_fields:
  "failureCount (handleCircuitBreakerFailure e s) = failureCount s + 1"
  "lastFailureTime (handleCircuitBreakerFailure e s) = Some (now s)"
  "now (handleCircuitBreakerFailure e s) = now s"
  "httpCalls (handleCircuitBreakerFailure e s) = httpCalls s"
  "circuitOpen (handleCircuitBreakerFailure e s) =
     (circuitOpen s \<or> failureThreshold e \<le> failureCount s + 1)"
  by (simp_all add: handleCircuitBreakerFailure_def Let_def)

lemma breaker_rejects:
  "circuitOpen s \<Longrightarrow> timeSinceLastFailure s < circuitTimeout e \<Longrightarrow>
   fetchWithCircuitBreaker e s = (Inl (HttpException CircuitIsOpen SERVICE_UNAVAILABLE), s)"
  by (simp add: fetchWithCircuitBreaker_def)

lemma breaker_lets_through:
  "\<not> (circuitOpen s \<and> timeSinceLastFailure s < circuitTimeout e) \<Longrightarrow>
   fetchWithCircuitBreaker e s =
     (case fetchWithRetry e 3 1000 s of
        (Inr rates, s1) \<Rightarrow>
          (Inr rates, s1\<lparr>failureCount := 0, circuitOpen := False, lastFailureTime := None\<rparr>)
      | (Inl err, s1) \<Rightarrow> (Inl err, handleCircuitBreakerFailure e s1))"
  by (auto simp: fetchWithCircuitBreaker_def)

lemma breaker_success:
  assumes "\<not> (circuitOpen s \<and> timeSinceLastFailure s < circuitTimeout e)"
    and "fetchWithCircuitBreaker e s = (Inr rates, s')"
  shows "failureCount s' = 0 \<and> lastFailureTime s' = None \<and> \<not> circuitOpen s'"
  using assms(2) unfolding breaker_lets_through [OF assms(1)]
  by (auto split: prod.splits sum.splits)

lemma breaker_failure:
  assumes "\<not> (circuitOpen s \<and> timeSinceLastFailure s < circuitTimeout e)"
    and "fetchWithCircuitBreaker e s = (Inl err, s')"
  shows "failureCount s' = failureCount s + 1 \<and> lastFailureTime s' = Some (now s')
         \<and> (circuitOpen s' \<longleftrightarrow> circuitOpen s \<or> failureThreshold e \<le> failureCount s')
         \<and> httpCalls s < httpCalls s' \<and> httpCalls s' \<le> httpCalls s + 3"
proof -
  obtain res s1 where r: "fetchWithRetry e 3 1000 s = (res, s1)"
    by (cases "fetchWithRetry e 3 1000 s")
  from assms(2) r have s': "s' = handleCircuitBreakerFailure e s1"
    unfolding breaker_lets_through [OF assms(1)] by (auto split: sum.splits)
  from fetchWithRetry_frame [OF r] show ?thesis
    unfolding s' by (simp add: handleCircuitBreakerFailure_fields)
qed

lemma breaker_calls:
  assumes "\<not> (circuitOpen s \<and> timeSinceLastFailure s < circuitTimeout e)"
  shows "fst (fetchWithCircuitBreaker e s) = fst (fetchWithRetry e 3 1000 s)
         \<and> httpCalls s < httpCalls (snd (fetchWithCircuitBreaker e s))"
proof -
  obtain res s1 where r: "fetchWithRetry e 3 1000 s = (res, s1)"
    by (cases "fetchWithRetry e 3 1000 s")
  from fetchWithRetry_frame [OF r] r show ?thesis
    unfolding breaker_lets_through [OF assms]
    by (cases res) (simp_all add: handleCircuitBreakerFailure_fields)
qed

lemma breakerInv_kept: "breakerInv e s \<Longrightarrow> breakerInv e (snd (fetchWithCircuitBreaker e s))"
proof (cases "circuitOpen s \<and> timeSinceLastFailure s < circuitTimeout e")
  case True
  moreover assume "breakerInv e s"
  ultimately show ?thesis by (simp add: breaker_rejects)
next
  case False
  assume inv: "breakerInv e s"
  obtain res s' where r: "fetchWithCircuitBreaker e s = (res, s')"
    by (cases "fetchWithCircuitBreaker e s")
  show ?thesis
  proof (cases res)
    case (Inl err)
    with breaker_failure [OF False] r inv show ?thesis
      by (auto simp: breakerInv_def)
  next
    case (Inr rates)
    with breaker_success [OF False] r show ?thesis
      by (auto simp: breakerInv_def)
  qed
qed

text \<open>
  C3. While the circuit is open and \<open>now - lastFailureTime < circuitTimeout\<close>, a call fails
  at once with the status-503 error and leaves the state, the count of transport calls
  included, as it was. Any other call (circuit closed, or open with the timeout elapsed:
  the trial) is let through to the retrier and makes at least one transport call. If it
  succeeds, \<open>failureCount\<close> is 0, \<open>lastFailureTime\<close> is cleared and the circuit is closed.
  If it fails, \<open>failureCount\<close> has grown by exactly one, whatever the number (1 to 3) of
  transport calls, \<open>lastFailureTime\<close> is the time of the failure, an open circuit stays
  open, and the circuit is open exactly when \<open>failureCount\<close> has reached
  \<open>failureThreshold\<close>. The last point holds in every state where an open circuit has
  reached the threshold, which is so in every state with a closed circuit and is kept by
  every call.
\<close>

theorem circuit_breaker_transitions:
  "(circuitOpen s \<and> lastFailureTime s = Some t \<and> now s - t < circuitTimeout e \<longrightarrow>
      fetchWithCircuitBreaker e s = (Inl (HttpException CircuitIsOpen SERVICE_UNAVAILABLE), s))
   \<and> (\<not> (circuitOpen s \<and> timeSinceLastFailure s < circuitTimeout e) \<longrightarrow>
        fst (fetchWithCircuitBreaker e s) = fst (fetchWithRetry e 3 1000 s)
        \<and> httpCalls s < httpCalls (snd (fetchWithCircuitBreaker e s))
        \<and> (\<forall>rates s'. fetchWithCircuitBreaker e s = (Inr rates, s') \<longrightarrow>
              failureCount s' = 0 \<and> lastFailureTime s' = None \<and> \<not> circuitOpen s')
        \<and> (\<forall>err s'. fetchWithCircuitBreaker e s = (Inl err, s') \<longrightarrow>
              failureCount s' = failureCount s + 1
              \<and> lastFailureTime s' = Some (now s')
              \<and> httpCalls s' \<le> httpCalls s + 3
              \<and> (circuitOpen s \<longrightarrow> circuitOpen s')
              \<and> (breakerInv e s \<longrightarrow> (circuitOpen s' \<longleftrightarrow> failureThreshold e \<le> failureCount s'))))
   \<and> (breakerInv e s \<longrightarrow> breakerInv e (snd (fetchWithCircuitBreaker e s)))
   \<and> (\<not> circuitOpen s \<longrightarrow> breakerInv e s)"
proof (intro conjI impI allI)
  assume "circuitOpen s \<and> lastFailureTime s = Some t \<and> now s - t < circuitTimeout e"
  then show "fetchWithCircuitBreaker e s = (Inl (HttpException CircuitIsOpen SERVICE_UNAVAILABLE), s)"
    by (intro breaker_rejects) (simp_all add: timeSinceLastFailure_def)
next
  assume "\<not> (circuitOpen s \<and> timeSinceLastFailure s < circuitTimeout e)"
  from breaker_calls [OF this]
  show "fst (fetchWithCircuitBreaker e s) = fst (fetchWithRetry e 3 1000 s)"
    and "httpCalls s < httpCalls (snd (fetchWithCircuitBreaker e s))"
    by blast+
next
  fix rates s'
  assume "\<not> (circuitOpen s \<and> timeSinceLastFailure s < circuitTimeout e)"
    and "fetchWithCircuitBreaker e s = (Inr rates, s')"
  from breaker_success [OF this]
  show "failureCount s' = 0" and "lastFailureTime s' = None" and "\<not> circuitOpen s'"
    by blast+
next
  fix err s'
  assume "\<not> (circuitOpen s \<and> timeSinceLastFailure s < circuitTimeout e)"
    and "fetchWithCircuitBreaker e s = (Inl err, s')"
  note f = breaker_failure [OF this]
  from f show "failureCount s' = failureCount s + 1" and "lastFailureTime s' = Some (now s')"
    and "httpCalls s' \<le> httpCalls s + 3"
    by blast+
  { assume "circuitOpen s" with f show "circuitOpen s'" by blast }
  { assume "breakerInv e s"
    with f show "circuitOpen s' \<longleftrightarrow> failureThreshold e \<le> failureCount s'"
      by (auto simp: breakerInv_def) }
next
  assume "breakerInv e s"
  then show "breakerInv e (snd (fetchWithCircuitBreaker e s))" by (rule breakerInv_kept)
next
  assume "\<not> circuitOpen s"
  then show "breakerInv e s" by (simp add: breakerInv_def)
qed


lemma fetch_down:
  "fetchWithRetry downEnv 3 1000 s =
     (Inl (HttpException FailedAfterAttempts SERVICE_UNAVAILABLE),
      s\<lparr>httpCalls := httpCalls s + 3, now := now s + 3000, sleeps := sleeps s @ [1000, 2000]\<rparr>)"
  by (simp add: fetchWithRetry_def fetchAttempts.simps downEnv_def sleep_def)

lemma fetch_up:
  "fetchWithRetry mockEnv 3 1000 s = (Inr mockRates, s\<lparr>httpCalls := httpCalls s + 1\<rparr>)"
  by (simp add: fetchWithRetry_def fetchAttempts.simps mockEnv_def)

theorem circuit_breaker_transitions_witness:
  "fetchWithCircuitBreaker downEnv (openState (now startState - 500)) =
     (Inl (HttpException CircuitIsOpen SERVICE_UNAVAILABLE), openState (now startState - 500))
   \<and> fst (fetchWithCircuitBreaker mockEnv (openState (now startState - 1100))) = Inr mockRates
   \<and> failureCount (snd (fetchWithCircuitBreaker mockEnv (openState (now startState - 1100)))) = 0
   \<and> lastFailureTime (snd (fetchWithCircuitBreaker mockEnv (openState (now startState - 1100)))) = None
   \<and> \<not> circuitOpen (snd (fetchWithCircuitBreaker mockEnv (openState (now startState - 1100))))
   \<and> failureCount (snd (fetchWithCircuitBreaker downEnv (startState\<lparr>failureCount := 2\<rparr>))) = 3
   \<and> circuitOpen (snd (fetchWithCircuitBreaker downEnv (startState\<lparr>failureCount := 2\<rparr>)))
   \<and> breakerInv downEnv (snd (fetchWithCircuitBreaker downEnv (startState\<lparr>failureCount := 2\<rparr>)))
   \<and> \<not> circuitOpen (snd (fetchWithCircuitBreaker downEnv startState))"
proof -
  let ?recent = "openState (now startState - 500)"
  let ?old = "openState (now startState - 1100)"
  let ?two = "startState\<lparr>failureCount := 2\<rparr>"
  have cfg: "failureThreshold downEnv = 3" "circuitTimeout downEnv = 1000"
    "failureThreshold mockEnv = 3" "circuitTimeout mockEnv = 1000"
    by (simp_all add: downEnv_def mockEnv_def)
  have h1: "circuitOpen ?recent \<and> lastFailureTime ?recent = Some (now startState - 500)
            \<and> now ?recent - (now startState - 500) < circuitTimeout downEnv"
    by (simp add: openState_def cfg)
  from circuit_breaker_transitions [of ?recent "now startState - 500" downEnv] h1
  have a: "fetchWithCircuitBreaker downEnv ?recent =
             (Inl (HttpException CircuitIsOpen SERVICE_UNAVAILABLE), ?recent)"
    by blast
  have h2: "\<not> (circuitOpen ?old \<and> timeSinceLastFailure ?old < circuitTimeout mockEnv)"
    by (simp add: openState_def cfg timeSinceLastFailure_def)
  obtain s2 where r2: "fetchWithCircuitBreaker mockEnv ?old = (Inr mockRates, s2)"
    using h2 by (simp add: fetchWithCircuitBreaker_def fetch_up)
  from circuit_breaker_transitions [of ?old "now startState - 1100" mockEnv] h2 r2
  have b: "failureCount s2 = 0 \<and> lastFailureTime s2 = None \<and> \<not> circuitOpen s2"
    by blast
  have h3: "\<not> (circuitOpen ?two \<and> timeSinceLastFailure ?two < circuitTimeout downEnv)"
    "breakerInv downEnv ?two" "failureCount ?two = 2"
    by (simp_all add: startState_def breakerInv_def)
  obtain s3 where r3: "fetchWithCircuitBreaker downEnv ?two =
      (Inl (HttpException FailedAfterAttempts SERVICE_UNAVAILABLE), s3)"
    using h3(1) by (simp add: fetchWithCircuitBreaker_def fetch_down)
  from circuit_breaker_transitions [of ?two 0 downEnv] h3 r3
  have c: "failureCount s3 = 3 \<and> (circuitOpen s3 \<longleftrightarrow> failureThreshold downEnv \<le> failureCount s3)"
    by auto
  have h4: "\<not> (circuitOpen startState \<and> timeSinceLastFailure startState < circuitTimeout downEnv)"
    "breakerInv downEnv startState" "failureCount startState = 0"
    by (simp_all add: startState_def breakerInv_def)
  obtain s4 where r4: "fetchWithCircuitBreaker downEnv startState =
      (Inl (HttpException FailedAfterAttempts SERVICE_UNAVAILABLE), s4)"
    using h4(1) by (simp add: fetchWithCircuitBreaker_def fetch_down)
  from circuit_breaker_transitions [of startState 0 downEnv] h4 r4
  have d: "failureCount s4 = 1 \<and> (circuitOpen s4 \<longleftrightarrow> failureThreshold downEnv \<le> failureCount s4)"
    by auto
  have "\<not> circuitOpen ?two" by (simp add: startState_def)
  with circuit_breaker_transitions [of ?two 0 downEnv]
  have "breakerInv downEnv ?two" by blast
  with circuit_breaker_transitions [of ?two 0 downEnv]
  have i: "breakerInv downEnv (snd (fetchWithCircuitBreaker downEnv ?two))" by blast
  from a b c d i show ?thesis
    by (simp add: r2 r3 r4 cfg)
qed

section \<open>The orchestrator\<close>

lemma upper_syms:
  "toUpperCase ''USD'' = ''USD''" "toUpperCase ''EUR'' = ''EUR''" "toUpperCase ''UAH'' = ''UAH''"
  "toUpperCase ''usd'' = ''USD''" "toUpperCase ''CHF'' = ''CHF''" "toUpperCase ''GBP'' = ''GBP''"
  by code_simp+

lemma mock_codes:
  "truthyCode (getCurrencyCode mockEnv ''USD'') = Some 840"
  "truthyCode (getCurrencyCode mockEnv ''EUR'') = Some 978"
  "truthyCode (getCurrencyCode mockEnv ''UAH'') = Some UAH_CODE"
  "truthyCode (getCurrencyCode mockEnv ''CHF'') = Some 756"
  "truthyCode (getCurrencyCode mockEnv ''usd'') = Some 840"
  by (simp_all add: getCurrencyCode_def mockEnv_def mockCodes_def upper_syms UAH_CODE_def)

lemma fetch_start:
  "getExchangeRates mockEnv startState =
     (Inr mockRates, startState\<lparr>httpCalls := 1, ratesCache := Some mockRates\<rparr>)"
  by (simp add: getExchangeRates_def fetchWithCircuitBreaker_def fetch_up
      timeSinceLastFailure_def startState_def)

lemma convert_computes:
  assumes "\<not> js_le_zero amt"
    and "truthyCode (getCurrencyCode e fromSym) = Some fromCode"
    and "truthyCode (getCurrencyCode e toSym) = Some toCode"
    and "conversionCache s (getConversionCacheKey fromSym toSym amt) = None"
    and "getExchangeRates e s = (Inr rates, s1)"
    and "findRate rates fromCode toCode = Some rate"
    and "calculateConversion amt rate fromCode toCode = Inr res"
  shows "convert e fromSym toSym (JSNumber amt) s =
    (Inr \<lparr>dtoFrom = toUpperCase fromSym, dtoTo = toUpperCase toSym,
          dtoAmount = amt, dtoResult = numberToFixed4 res\<rparr>,
     s1\<lparr>conversionCache :=
          (conversionCache s1)
            (getConversionCacheKey fromSym toSym amt \<mapsto>
               \<lparr>dtoFrom = toUpperCase fromSym, dtoTo = toUpperCase toSym,
                dtoAmount = amt, dtoResult = numberToFixed4 res\<rparr>)\<rparr>)"
  using assms by (simp add: convert_def Let_def)







lemma findRate_mock:
  "findRate mockRates 840 UAH_CODE = Some usdLeg"
  "findRate mockRates UAH_CODE 840 = Some usdLeg"
  by (simp_all add: findRate_def find_usd_mock) (simp_all add: UAH_CODE_def)



text \<open>What the guards at the head of \<open>convert\<close> do turn down, before anything else
  happens (the state is returned as it was): an amount that is not of type number, a
  number that is zero or negative, and a symbol without a usable code.\<close>

lemma convert_invalid_input:
  "convert e fromSym toSym JSOther s = (Inl (HttpException (InvalidAmount JSOther) BAD_REQUEST), s)"
  "a \<le> 0 \<Longrightarrow> convert e fromSym toSym (JSNumber (Num a)) s =
      (Inl (HttpException (InvalidAmount (JSNumber (Num a))) BAD_REQUEST), s)"
  "0 < a \<Longrightarrow> truthyCode (getCurrencyCode e fromSym) = None \<Longrightarrow>
     convert e fromSym toSym (JSNumber (Num a)) s =
       (Inl (HttpException (UnsupportedCurrency fromSym) BAD_REQUEST), s)"
  "0 < a \<Longrightarrow> truthyCode (getCurrencyCode e fromSym) = Some c \<Longrightarrow>
     truthyCode (getCurrencyCode e toSym) = None \<Longrightarrow>
     convert e fromSym toSym (JSNumber (Num a)) s =
       (Inl (HttpException (UnsupportedCurrency toSym) BAD_REQUEST), s)"
  by (simp_all add: convert_def)

text \<open>
  C9. An amount that is not a positive number must be turned down with a bad-request
  error before the resolver and the upstream fetch are reached. The guard
  \<open>typeof amount !== 'number' || amount <= 0\<close> lets \<open>NaN\<close> through: its type is number
  and \<open>NaN <= 0\<close> is false. On a service that has just started, \<open>convert\<close> with the
  amount \<open>NaN\<close> makes one transport call, stores the snapshot, resolves the rate and
  answers with the result \<open>NaN\<close>, which it also caches.
\<close>

theorem convert_NaN_amount:
  "convert mockEnv ''USD'' ''UAH'' (JSNumber NaN) startState =
     (Inr \<lparr>dtoFrom = ''USD'', dtoTo = ''UAH'', dtoAmount = NaN, dtoResult = NaN\<rparr>,
      startState\<lparr>httpCalls := 1, ratesCache := Some mockRates,
        conversionCache :=
          [(''USD'', ''UAH'', NaN) \<mapsto>
             \<lparr>dtoFrom = ''USD'', dtoTo = ''UAH'', dtoAmount = NaN, dtoResult = NaN\<rparr>]\<rparr>)"
proof -
  have "\<not> js_le_zero NaN" by simp
  moreover have "conversionCache startState (getConversionCacheKey ''USD'' ''UAH'' NaN) = None"
    by (simp add: startState_def)
  moreover have "calculateConversion NaN usdLeg 840 UAH_CODE = Inr NaN"
    by (simp add: calculateConversion_def getRequiredRate_def js_nullish_def usdLeg_def)
  ultimately have "convert mockEnv ''USD'' ''UAH'' (JSNumber NaN) startState =
    (Inr \<lparr>dtoFrom = toUpperCase ''USD'', dtoTo = toUpperCase ''UAH'',
          dtoAmount = NaN, dtoResult = numberToFixed4 NaN\<rparr>,
     (startState\<lparr>httpCalls := 1, ratesCache := Some mockRates\<rparr>)\<lparr>conversionCache :=
          (conversionCache (startState\<lparr>httpCalls := 1, ratesCache := Some mockRates\<rparr>))
            (getConversionCacheKey ''USD'' ''UAH'' NaN \<mapsto>
               \<lparr>dtoFrom = toUpperCase ''USD'', dtoTo = toUpperCase ''UAH'',
                dtoAmount = NaN, dtoResult = numberToFixed4 NaN\<rparr>)\<rparr>)"
    using mock_codes(1,3) fetch_start findRate_mock(1)
    by (intro convert_computes)
  then show ?thesis
    by (simp add: upper_syms getConversionCacheKey_def startState_def)
qed






section \<open>Round trips\<close>














end
